theory Spec2Isabelle
  imports Complex_Main
begin

section \<open>Python values used by the pipeline\<close>

text \<open>
  A Python \<open>float\<close> is modelled by its value: not-a-number, the two infinities, or a finite
  number. Finite values are real numbers, so rounding and overflow of the 64-bit format are
  not part of the model, and the two signed zeros are one value.
\<close>

datatype pyfloat = NaN | PInf | NInf | Fin real

text \<open>The values an enumeration member can be looked up by: a string or a float.\<close>

datatype pyval = PyStr string | PyFloat pyfloat

text \<open>
  Exceptions. A \<open>ValueError\<close> carries its message: either a literal text, or the message
  \<open>"<value> is not a valid <class>"\<close> that \<open>Enum\<close> raises for an unknown value.
\<close>

datatype errmsg = Text string | NotAValid pyval string

datatype error = ValueError errmsg | OverflowError | KeyError string

datatype warning = UserWarning string

section \<open>enumerables.py: \<open>CVSplit\<close>\<close>

datatype CVSplit = KFold3 | KFold5 | KFold10 | KFold20 | Holdout

definition CVSplit_value :: "CVSplit \<Rightarrow> string" where
  "CVSplit_value m =
     (case m of KFold3 \<Rightarrow> ''3-fold'' | KFold5 \<Rightarrow> ''5-fold'' | KFold10 \<Rightarrow> ''10-fold''
      | KFold20 \<Rightarrow> ''20-fold'' | Holdout \<Rightarrow> ''holdout'')"

definition CVSplit_members :: "CVSplit list" where
  "CVSplit_members = [KFold3, KFold5, KFold10, KFold20, Holdout]"

text \<open>
  \<open>CVSplit(v)\<close>: the member whose value equals \<open>v\<close>, and a \<open>ValueError\<close> when there is
  none. Every member's value is a string, and in Python a float never equals a string.
\<close>

definition CVSplit_call :: "pyval \<Rightarrow> error + CVSplit" where
  "CVSplit_call v =
     (case map_of (map (\<lambda>m. (PyStr (CVSplit_value m), m)) CVSplit_members) v of
        None \<Rightarrow> Inl (ValueError (NotAValid v ''CVSplit''))
      | Some m \<Rightarrow> Inr m)"

text \<open>\<open>float.is_integer()\<close>: false for NaN and the infinities.\<close>

definition is_integer :: "pyfloat \<Rightarrow> bool" where
  "is_integer cv = (case cv of Fin x \<Rightarrow> of_int \<lfloor>x\<rfloor> = x | _ \<Rightarrow> False)"

text \<open>
  \<open>round(cv)\<close> of a float: the nearest integer, a tie going to the even one;
  \<open>ValueError\<close> for NaN and \<open>OverflowError\<close> for an infinity.
\<close>

definition round_half_even :: "real \<Rightarrow> int" where
  "round_half_even x =
     (let f = \<lfloor>x\<rfloor>; d = x - of_int f
      in if d < 1 / 2 then f else if 1 / 2 < d then f + 1 else if even f then f else f + 1)"

definition py_round :: "pyfloat \<Rightarrow> error + int" where
  "py_round cv =
     (case cv of
        NaN \<Rightarrow> Inl (ValueError (Text ''cannot convert float NaN to integer''))
      | PInf \<Rightarrow> Inl OverflowError
      | NInf \<Rightarrow> Inl OverflowError
      | Fin x \<Rightarrow> Inr (round_half_even x))"

text \<open>The comparisons of a float with the integer literals 0, 1 and 10; all false for NaN.\<close>

definition f_le :: "pyfloat \<Rightarrow> real \<Rightarrow> bool" where
  "f_le cv c = (case cv of NaN \<Rightarrow> False | PInf \<Rightarrow> False | NInf \<Rightarrow> True | Fin x \<Rightarrow> x \<le> c)"

definition f_lt :: "pyfloat \<Rightarrow> real \<Rightarrow> bool" where
  "f_lt cv c = (case cv of NaN \<Rightarrow> False | PInf \<Rightarrow> False | NInf \<Rightarrow> True | Fin x \<Rightarrow> x < c)"

definition f_gt :: "pyfloat \<Rightarrow> real \<Rightarrow> bool" where
  "f_gt cv c = (case cv of NaN \<Rightarrow> False | PInf \<Rightarrow> True | NInf \<Rightarrow> False | Fin x \<Rightarrow> c < x)"

definition f_eq :: "pyfloat \<Rightarrow> real \<Rightarrow> bool" where
  "f_eq cv c = (case cv of Fin x \<Rightarrow> x = c | _ \<Rightarrow> False)"

definition isnan :: "pyfloat \<Rightarrow> bool" where
  "isnan cv = (case cv of NaN \<Rightarrow> True | _ \<Rightarrow> False)"

text \<open>
  \<open>CVSplit.from_str\<close>. The built-in \<open>float\<close> is the parameter \<open>to_float\<close>, which gives
  \<open>None\<close> where \<open>float(s)\<close> raises. The result is the list of warnings emitted, in order,
  and then either the exception raised or the member returned.
\<close>

definition from_str :: "(string \<Rightarrow> pyfloat option) \<Rightarrow> string \<Rightarrow> warning list \<times> (error + CVSplit)" where
  "from_str to_float s =
     (case to_float s of
        None \<Rightarrow> ([], Inl (ValueError (Text
          ''Could not convert a `... -size` argument (e.g. --htune-val-size) value to float'')))
      | Some cv \<Rightarrow>
          if isnan cv then ([], Inl (ValueError (Text ''NaN is not a valid size'')))
          else if f_le cv 0 then ([], Inl (ValueError (Text
            ''`... -size` arguments (e.g. --htune-val-size) must be positive'')))
          else if f_eq cv 1 then ([], Inl (ValueError (Text
            (CHR 0x27 # ''1'' @ CHR 0x27 #
              '' is not a valid value for `... -size` arguments (e.g. --htune-val-size).''))))
          else if f_gt cv 0 \<and> f_lt cv 1 then ([], Inr Holdout)
          else if f_gt cv 1 \<and> \<not> is_integer cv then ([], Inl (ValueError (Text
            ''`... -size` arguments (e.g. --htune-val-size) greater than 1, as it specifies the `k` in k-fold'')))
          else
            (case py_round cv of
               Inl e \<Rightarrow> ([], Inl e)
             | Inr r \<Rightarrow>
                 if \<not> f_eq cv (of_int r) then ([], Inl (ValueError (Text
                   ''`--htune-val-size` must be an integer if greater than 1, as it specifies the `k` in k-fold'')))
                 else
                   (let ws = (if f_gt cv 10
                              then [UserWarning ''`--htune-val-size` greater than 10 is not recommended.'']
                              else [])
                    in if f_gt cv 1 then (ws, CVSplit_call (PyFloat cv))
                       else (ws, CVSplit_call (PyStr s)))))"

text \<open>
  A parser for plain decimal literals, to run \<open>from_str\<close> on concrete strings: optional
  surrounding whitespace, an optional sign, then \<open>nan\<close>, \<open>inf\<close> or \<open>infinity\<close> in any
  letter case, or digits with an optional fraction part. On these strings \<open>float\<close> gives
  the same value whenever that value is a binary fraction the format holds exactly
  (\<open>5\<close>, \<open>11\<close>, \<open>0.25\<close>, \<open>2.5\<close>). Exponents and digit-group underscores are left out.
\<close>

definition is_space :: "char \<Rightarrow> bool" where
  "is_space c = ((of_char c :: nat) \<in> {9, 10, 11, 12, 13, 32})"

definition strip :: "string \<Rightarrow> string" where
  "strip s = rev (dropWhile is_space (rev (dropWhile is_space s)))"

definition to_lower :: "char \<Rightarrow> char" where
  "to_lower c = (let n = (of_char c :: nat) in if 65 \<le> n \<and> n \<le> 90 then char_of (n + 32) else c)"

definition lower :: "string \<Rightarrow> string" where
  "lower s = map to_lower s"

definition digit_of :: "char \<Rightarrow> nat option" where
  "digit_of c = (let n = (of_char c :: nat) in if 48 \<le> n \<and> n \<le> 57 then Some (n - 48) else None)"

fun digits_value :: "string \<Rightarrow> nat \<Rightarrow> nat option" where
  "digits_value [] acc = Some acc"
| "digits_value (c # cs) acc =
     (case digit_of c of None \<Rightarrow> None | Some d \<Rightarrow> digits_value cs (10 * acc + d))"

definition decimal_value :: "string \<Rightarrow> real option" where
  "decimal_value s =
     (let ip = takeWhile (\<lambda>c. c \<noteq> CHR ''.'') s;
          fp = drop 1 (dropWhile (\<lambda>c. c \<noteq> CHR ''.'') s)
      in if ip @ fp = [] then None
         else (case (digits_value ip 0, digits_value fp 0) of
                 (Some i, Some f) \<Rightarrow> Some (of_nat i + of_nat f / 10 ^ length fp)
               | _ \<Rightarrow> None))"

definition float_decimal :: "string \<Rightarrow> pyfloat option" where
  "float_decimal s =
     (let t = strip s;
          neg = (take 1 t = ''-'');
          body = (if take 1 t = ''-'' \<or> take 1 t = ''+'' then drop 1 t else t);
          l = lower body
      in if l = ''nan'' then Some NaN
         else if l = ''inf'' \<or> l = ''infinity'' then Some (if neg then NInf else PInf)
         else (case decimal_value body of
                 None \<Rightarrow> None
               | Some x \<Rightarrow> Some (Fin (if neg then - x else x))))"

section \<open>Float arithmetic as NumPy performs it\<close>

text \<open>
  Elementwise arithmetic on float arrays raises nothing: a division by zero gives an infinity
  or NaN, and NaN propagates.
\<close>

fun f_neg :: "pyfloat \<Rightarrow> pyfloat" where
  "f_neg NaN = NaN"
| "f_neg PInf = NInf"
| "f_neg NInf = PInf"
| "f_neg (Fin a) = Fin (- a)"

fun f_add :: "pyfloat \<Rightarrow> pyfloat \<Rightarrow> pyfloat" where
  "f_add (Fin a) (Fin b) = Fin (a + b)"
| "f_add NaN _ = NaN"
| "f_add _ NaN = NaN"
| "f_add PInf NInf = NaN"
| "f_add NInf PInf = NaN"
| "f_add PInf _ = PInf"
| "f_add _ PInf = PInf"
| "f_add NInf _ = NInf"
| "f_add _ NInf = NInf"

definition f_sub :: "pyfloat \<Rightarrow> pyfloat \<Rightarrow> pyfloat" where
  "f_sub a b = f_add a (f_neg b)"

fun f_abs :: "pyfloat \<Rightarrow> pyfloat" where
  "f_abs NaN = NaN"
| "f_abs PInf = PInf"
| "f_abs NInf = PInf"
| "f_abs (Fin a) = Fin \<bar>a\<bar>"

fun f_sqrt :: "pyfloat \<Rightarrow> pyfloat" where
  "f_sqrt NaN = NaN"
| "f_sqrt PInf = PInf"
| "f_sqrt NInf = NaN"
| "f_sqrt (Fin a) = (if a < 0 then NaN else Fin (sqrt a))"

text \<open>The infinity with the sign of \<open>a\<close>; NaN for zero.\<close>

definition signed_inf :: "real \<Rightarrow> pyfloat" where
  "signed_inf a = (if a = 0 then NaN else if 0 < a then PInf else NInf)"

fun f_mul :: "pyfloat \<Rightarrow> pyfloat \<Rightarrow> pyfloat" where
  "f_mul (Fin a) (Fin b) = Fin (a * b)"
| "f_mul NaN _ = NaN"
| "f_mul _ NaN = NaN"
| "f_mul PInf (Fin b) = signed_inf b"
| "f_mul NInf (Fin b) = signed_inf (- b)"
| "f_mul (Fin a) PInf = signed_inf a"
| "f_mul (Fin a) NInf = signed_inf (- a)"
| "f_mul PInf PInf = PInf"
| "f_mul NInf NInf = PInf"
| "f_mul PInf NInf = NInf"
| "f_mul NInf PInf = NInf"

fun f_div :: "pyfloat \<Rightarrow> pyfloat \<Rightarrow> pyfloat" where
  "f_div (Fin a) (Fin b) = (if b = 0 then signed_inf a else Fin (a / b))"
| "f_div NaN _ = NaN"
| "f_div _ NaN = NaN"
| "f_div (Fin a) _ = Fin 0"
| "f_div PInf (Fin b) = (if 0 \<le> b then PInf else NInf)"
| "f_div NInf (Fin b) = (if 0 \<le> b then NInf else PInf)"
| "f_div _ _ = NaN"

text \<open>\<open>a < b\<close> on floats: false whenever one side is NaN.\<close>

fun f_less :: "pyfloat \<Rightarrow> pyfloat \<Rightarrow> bool" where
  "f_less (Fin a) (Fin b) = (a < b)"
| "f_less NaN _ = False"
| "f_less _ NaN = False"
| "f_less NInf NInf = False"
| "f_less NInf _ = True"
| "f_less PInf _ = False"
| "f_less _ PInf = True"
| "f_less _ NInf = False"

section \<open>Tables\<close>

text \<open>
  A \<open>DataFrame\<close> is its number of rows and its columns in order, each a label with one
  value per row. Feature values are finite numbers, as the preparation step before feature
  selection leaves them. A \<open>Series\<close> is a list of labelled floats.
\<close>

record DataFrame =
  nrows :: nat
  cols :: "(string \<times> real list) list"

type_synonym Series = "(string \<times> pyfloat) list"

definition shape :: "DataFrame \<Rightarrow> nat \<times> nat" where
  "shape df = (nrows df, length (cols df))"

text \<open>\<open>df.drop(columns=label)\<close>: \<open>KeyError\<close> when no column has the label.\<close>

definition drop_columns :: "string \<Rightarrow> DataFrame \<Rightarrow> error + DataFrame" where
  "drop_columns label df =
     (if label \<in> fst ` set (cols df)
      then Inr (df\<lparr>cols := filter (\<lambda>c. fst c \<noteq> label) (cols df)\<rparr>)
      else Inl (KeyError label))"

text \<open>\<open>df[label]\<close>: the column, \<open>KeyError\<close> when there is none.\<close>

definition getitem :: "DataFrame \<Rightarrow> string \<Rightarrow> error + real list" where
  "getitem df label = (case map_of (cols df) label of None \<Rightarrow> Inl (KeyError label) | Some c \<Rightarrow> Inr c)"

text \<open>\<open>X.loc[keep, :]\<close>: the rows where the boolean array \<open>keep\<close> holds.\<close>

definition select_rows :: "bool list \<Rightarrow> 'a list \<Rightarrow> 'a list" where
  "select_rows keep xs = map snd (filter fst (zip keep xs))"

definition loc_rows :: "bool list \<Rightarrow> DataFrame \<Rightarrow> DataFrame" where
  "loc_rows keep X =
     \<lparr>nrows = length (filter id keep), cols = map (\<lambda>c. (fst c, select_rows keep (snd c))) (cols X)\<rparr>"

text \<open>\<open>df.loc[:, labels]\<close>: the columns carrying the labels, in the order of the labels.\<close>

definition loc_columns :: "string list \<Rightarrow> DataFrame \<Rightarrow> DataFrame" where
  "loc_columns labels df =
     df\<lparr>cols := concat (map (\<lambda>l. filter (\<lambda>c. fst c = l) (cols df)) labels)\<rparr>"

text \<open>
  Column statistics. The mean of no values is NaN; the standard deviation with \<open>ddof=1\<close>
  divides by \<open>n - 1\<close> and is NaN for fewer than two values.
\<close>

definition mean :: "real list \<Rightarrow> real" where
  "mean xs = sum_list xs / real (length xs)"

definition np_mean :: "real list \<Rightarrow> pyfloat" where
  "np_mean xs = (if xs = [] then NaN else Fin (mean xs))"

definition np_std :: "real list \<Rightarrow> pyfloat" where
  "np_std xs =
     (if length xs \<le> 1 then NaN
      else Fin (sqrt (sum_list (map (\<lambda>x. (x - mean xs)\<^sup>2) xs) / real (length xs - 1))))"

definition per_column :: "(real list \<Rightarrow> pyfloat) \<Rightarrow> DataFrame \<Rightarrow> Series" where
  "per_column f X = map (\<lambda>c. (fst c, f (snd c))) (cols X)"

text \<open>
  Elementwise operations on series. The two operands of every binary operation below are
  computed from the same columns, so their labels agree position by position.
\<close>

definition series_map :: "(pyfloat \<Rightarrow> pyfloat) \<Rightarrow> Series \<Rightarrow> Series" where
  "series_map f a = map (\<lambda>e. (fst e, f (snd e))) a"

definition series_map2 :: "(pyfloat \<Rightarrow> pyfloat \<Rightarrow> pyfloat) \<Rightarrow> Series \<Rightarrow> Series \<Rightarrow> Series" where
  "series_map2 f a b = map (\<lambda>p. (fst (fst p), f (snd (fst p)) (snd (snd p)))) (zip a b)"

section \<open>feature\_selection.py: effect sizes\<close>

definition cohens_d :: "DataFrame \<Rightarrow> error + Series" where
  "cohens_d df =
     (case drop_columns ''target'' df of
        Inl e \<Rightarrow> Inl e
      | Inr X \<Rightarrow>
          (case getitem df ''target'' of
             Inl e \<Rightarrow> Inl e
           | Inr y \<Rightarrow>
               (let x1 = loc_rows (map (\<lambda>v. v = 0) y) X;
                    x2 = loc_rows (map (\<lambda>v. v = 1) y) X;
                    n1 = int (nrows x1) - 1;
                    n2 = int (nrows x2) - 1;
                    sd1 = per_column np_std x1;
                    sd2 = per_column np_std x2;
                    sd_pools = series_map f_sqrt
                      (series_map (\<lambda>v. f_div v (Fin (of_int (n1 + n2))))
                         (series_map2 f_add
                            (series_map (f_mul (Fin (of_int n1))) sd1)
                            (series_map (f_mul (Fin (of_int n2))) sd2)));
                    m1 = per_column np_mean x1;
                    m2 = per_column np_mean x2;
                    ds = series_map2 f_div (series_map f_abs (series_map2 f_sub m1 m2)) sd_pools
                in Inr ds)))"

text \<open>
  The value \<open>cohens_d\<close> computes for one column, from the two weights \<open>n1\<close>, \<open>n2\<close> and the
  column's values in the two groups.
\<close>

definition pooled :: "int \<Rightarrow> int \<Rightarrow> real list \<Rightarrow> real list \<Rightarrow> pyfloat" where
  "pooled n1 n2 g1 g2 =
     f_div (f_abs (f_sub (np_mean g1) (np_mean g2)))
       (f_sqrt (f_div (f_add (f_mul (Fin (of_int n1)) (np_std g1)) (f_mul (Fin (of_int n2)) (np_std g2)))
                  (Fin (of_int (n1 + n2)))))"

text \<open>
  The formula of the specification, written from its words for the values of one feature in
  group 1 and in group 0:
  \<open>|mean(group1) - mean(group0)| / sqrt(((n1-1)*sd1 + (n0-1)*sd0) / (n1+n0-2))\<close>,
  with \<open>n1\<close>, \<open>n0\<close> the group sizes and \<open>sd1\<close>, \<open>sd0\<close> the sample standard deviations.
\<close>

definition cohens_d_formula :: "real list \<Rightarrow> real list \<Rightarrow> pyfloat" where
  "cohens_d_formula group1 group0 =
     (let n1 = int (length group1);
          n0 = int (length group0);
          sd1 = np_std group1;
          sd0 = np_std group0
      in f_div (f_abs (f_sub (np_mean group1) (np_mean group0)))
           (f_sqrt (f_div (f_add (f_mul (Fin (of_int (n1 - 1))) sd1) (f_mul (Fin (of_int (n0 - 1))) sd0))
                      (Fin (of_int (n1 + n0 - 2))))))"

text \<open>Swapping the two group labels: the target \<open>y\<close> becomes \<open>1 - y\<close>.\<close>

definition swap_labels :: "DataFrame \<Rightarrow> DataFrame" where
  "swap_labels df =
     df\<lparr>cols := map (\<lambda>c. if fst c = ''target'' then (fst c, map (\<lambda>v. 1 - v) (snd c)) else c) (cols df)\<rparr>"

text \<open>
  \<open>sklearn.metrics.roc_auc_score\<close> for one score column, as the notes of \<open>auroc\<close> describe
  it: the Mann-Whitney \<open>U\<close> of the two groups over the product of their sizes, where \<open>U\<close>
  counts the pairs in which the positive row scores higher and half of the tied pairs. The
  greater of the two labels is the positive one. It raises \<open>ValueError\<close> unless exactly two
  integer labels are present.
\<close>

definition mann_whitney_u :: "real list \<Rightarrow> real list \<Rightarrow> real" where
  "mann_whitney_u pos neg =
     sum_list (map (\<lambda>p. sum_list (map (\<lambda>n. if n < p then 1 else if n = p then 1 / 2 else 0) neg)) pos)"

definition roc_auc_score :: "real list \<Rightarrow> real list \<Rightarrow> error + real" where
  "roc_auc_score y_true y_score =
     (let labels = sort (remdups y_true)
      in if \<not> list_all (\<lambda>v. of_int \<lfloor>v\<rfloor> = v) y_true
         then Inl (ValueError (Text ''continuous format is not supported''))
         else if length labels = 1 \<or> length labels = 0
         then Inl (ValueError (Text
           ''Only one class present in y_true. ROC AUC score is not defined in that case.''))
         else if 2 < length labels
         then Inl (ValueError (Text ''multi_class must be in (ovo, ovr)''))
         else (let pos = select_rows (map (\<lambda>v. v = labels ! 1) y_true) y_score;
                   neg = select_rows (map (\<lambda>v. v = labels ! 0) y_true) y_score
               in Inr (mann_whitney_u pos neg / (real (length pos) * real (length neg)))))"

text \<open>
  The area under the ROC curve of one score column as a predictor of a 0/1 target: the rows
  with \<open>y = 1\<close> are the positive group.
\<close>

definition auc :: "real list \<Rightarrow> real list \<Rightarrow> real" where
  "auc y score =
     (let pos = select_rows (map (\<lambda>v. v = 1) y) score;
          neg = select_rows (map (\<lambda>v. v = 0) y) score
      in mann_whitney_u pos neg / (real (length pos) * real (length neg)))"

text \<open>The list comprehension of \<open>auroc\<close>: one score per column, stopping at the first exception.\<close>

fun aucs_of :: "real list \<Rightarrow> (string \<times> real list) list \<Rightarrow> error + Series" where
  "aucs_of y [] = Inr []"
| "aucs_of y (c # cs) =
     (case roc_auc_score y (snd c) of
        Inl e \<Rightarrow> Inl e
      | Inr a \<Rightarrow> (case aucs_of y cs of Inl e \<Rightarrow> Inl e | Inr r \<Rightarrow> Inr ((fst c, Fin a) # r)))"

definition auroc :: "DataFrame \<Rightarrow> error + Series" where
  "auroc df =
     (case drop_columns ''target'' df of
        Inl e \<Rightarrow> Inl e
      | Inr X \<Rightarrow>
          (case getitem df ''target'' of
             Inl e \<Rightarrow> Inl e
           | Inr y \<Rightarrow>
               (case aucs_of y (cols X) of
                  Inl e \<Rightarrow> Inl e
                | Inr aucs \<Rightarrow> Inr (series_map f_abs (series_map (\<lambda>a. f_sub a (Fin (1 / 2))) aucs)))))"

text \<open>
  \<open>correlations\<close>. The pandas method \<open>corrwith\<close> is the parameter: it takes the method name,
  the feature table and the target column.
\<close>

definition correlations ::
  "(string \<Rightarrow> DataFrame \<Rightarrow> real list \<Rightarrow> error + Series) \<Rightarrow> DataFrame \<Rightarrow> string \<Rightarrow> error + Series" where
  "correlations corrwith df method =
     (case drop_columns ''target'' df of
        Inl e \<Rightarrow> Inl e
      | Inr X \<Rightarrow>
          (case getitem df ''target'' of
             Inl e \<Rightarrow> Inl e
           | Inr y \<Rightarrow>
               (case corrwith method X y of Inl e \<Rightarrow> Inl e | Inr r \<Rightarrow> Inr (series_map f_abs r))))"

section \<open>feature\_selection.py: univariate selection\<close>

text \<open>
  \<open>sort_values(ascending=False)\<close>: greatest first, entries with NaN last. Equal scores are
  kept in their order here; pandas leaves their order to the sorting routine.
\<close>

fun insert_desc :: "string \<times> pyfloat \<Rightarrow> Series \<Rightarrow> Series" where
  "insert_desc x [] = [x]"
| "insert_desc x (y # ys) =
     (if f_less (snd x) (snd y) then y # insert_desc x ys else x # y # ys)"

definition sort_values_desc :: "Series \<Rightarrow> Series" where
  "sort_values_desc a =
     foldr insert_desc (filter (\<lambda>e. \<not> isnan (snd e)) a) [] @ filter (\<lambda>e. isnan (snd e)) a"

text \<open>The slice \<open>xs[:n]\<close>; a negative \<open>n\<close> counts from the end.\<close>

definition slice_to :: "int \<Rightarrow> 'a list \<Rightarrow> 'a list" where
  "slice_to n xs = (if 0 \<le> n then take (nat n) xs else take (length xs - nat (- n)) xs)"

definition select_features_by_univariate_rank ::
  "(string \<Rightarrow> DataFrame \<Rightarrow> real list \<Rightarrow> error + Series) \<Rightarrow> DataFrame \<Rightarrow> string \<Rightarrow> int
     \<Rightarrow> error + DataFrame" where
  "select_features_by_univariate_rank corrwith df metric n_features =
     (case (if lower metric = ''d'' then cohens_d df
            else if lower metric = ''auc'' then auroc df
            else if lower metric \<in> set [''pearson'', ''spearman'']
            then correlations corrwith df metric
            else Inl (ValueError (Text ''Invalid metric''))) of
        Inl e \<Rightarrow> Inl e
      | Inr scores \<Rightarrow>
          (let importances = sort_values_desc scores;
               strongest = slice_to n_features importances
           in Inr (loc_columns (map fst strongest) df)))"

section \<open>feature\_selection.py: weak-feature filter\<close>

text \<open>
  The three filters come from the featuretools library and the serialisation from pandas;
  the path \<open>UNCORRELATED\<close> comes from the constants module. They are the fields of
  \<open>externals\<close>. The file at the path is \<open>None\<close> when it does not exist and its content
  otherwise. \<open>remove_weak_features\<close> gives what the call returns (\<open>None\<close> for Python's
  \<open>None\<close>), the file afterwards, and the lines printed.
\<close>

record 'j externals =
  remove_single_value_features :: "DataFrame \<Rightarrow> DataFrame"
  remove_low_information_features :: "DataFrame \<Rightarrow> DataFrame"
  remove_highly_correlated_features :: "DataFrame \<Rightarrow> DataFrame"
  to_json :: "DataFrame \<Rightarrow> 'j"
  read_json :: "'j \<Rightarrow> error + DataFrame"
  UNCORRELATED :: string

datatype printed = Shape string "nat \<times> nat" | Message string

definition remove_weak_features ::
  "'j externals \<Rightarrow> DataFrame \<Rightarrow> bool \<Rightarrow> 'j option
     \<Rightarrow> (error + DataFrame option) \<times> 'j option \<times> printed list" where
  "remove_weak_features lib df decorrelate file =
     (case file of
        Some content \<Rightarrow>
          (case read_json lib content of
             Inl e \<Rightarrow> (Inl e, file, [])
           | Inr cached \<Rightarrow> (Inr (Some cached), file, []))
      | None \<Rightarrow>
          (let df_v = remove_single_value_features lib df;
               df_i = remove_low_information_features lib df_v;
               out = [Shape ''Starting shape: '' (shape df),
                      Shape ''Shape after removing constant features: '' (shape df_v),
                      Shape ''Shape after removing low-information features: '' (shape df_i)]
           in if \<not> decorrelate then (Inr (Some df_i), file, out)
              else
                (let df_c = remove_highly_correlated_features lib df_i
                 in (Inr None, Some (to_json lib df_c),
                     out @
                     [Message (''Removing highly-correlated features.'' @
                        ''NOTE: this could take a while when there are 1000+ features.''),
                      Shape ''Shape after removing highly-correlated features: '' (shape df_c),
                      Message (''Saved uncorrelated features to '' @ UNCORRELATED lib)]))))"

section \<open>feature\_selection.py: projections\<close>

text \<open>
  The array handed to a scikit-learn estimator holds every column of the table. Arrays are
  lists of columns. The two \<open>fit_transform\<close> methods are parameters, called with the number
  of components; they give \<open>Inl\<close> where scikit-learn raises.
\<close>

definition to_numpy :: "DataFrame \<Rightarrow> real list list" where
  "to_numpy df = map snd (cols df)"

fun str_nat :: "nat \<Rightarrow> string" where
  "str_nat n =
     (if n < 10 then [''0123456789'' ! n] else str_nat (n div 10) @ [''0123456789'' ! (n mod 10)])"

definition component_frame :: "string \<Rightarrow> nat \<Rightarrow> real list list \<Rightarrow> DataFrame" where
  "component_frame prefix n reduced =
     \<lparr>nrows = n, cols = zip (map (\<lambda>i. prefix @ str_nat i) [0..<length reduced]) reduced\<rparr>"

definition get_pca_features ::
  "(int \<Rightarrow> real list list \<Rightarrow> error + real list list) \<Rightarrow> DataFrame \<Rightarrow> int \<Rightarrow> error + DataFrame" where
  "get_pca_features pca_fit_transform df n_features =
     (case pca_fit_transform n_features (to_numpy df) of
        Inl e \<Rightarrow> Inl e
      | Inr reduced \<Rightarrow> Inr (component_frame ''pca-'' (nrows df) reduced))"

definition get_kernel_pca_features ::
  "(int \<Rightarrow> real list list \<Rightarrow> error + real list list) \<Rightarrow> DataFrame \<Rightarrow> int \<Rightarrow> error + DataFrame" where
  "get_kernel_pca_features kpca_fit_transform df n_features =
     (case kpca_fit_transform n_features (to_numpy df) of
        Inl e \<Rightarrow> Inl e
      | Inr reduced \<Rightarrow> Inr (component_frame ''kpca-'' (nrows df) reduced))"

text \<open>A table that differs from \<open>df\<close> only in the values of its target column.\<close>

definition with_target :: "real list \<Rightarrow> DataFrame \<Rightarrow> DataFrame" where
  "with_target y' df =
     df\<lparr>cols := map (\<lambda>c. if fst c = ''target'' then (fst c, y') else c) (cols df)\<rparr>"

text \<open>
  A projection to run the two functions on concrete tables: it centres every column and
  keeps the first \<open>n\<close>. It stands for neither scikit-learn estimator.
\<close>

definition centre_columns :: "int \<Rightarrow> real list list \<Rightarrow> error + real list list" where
  "centre_columns n m = Inr (take (nat n) (map (\<lambda>c. map (\<lambda>x. x - mean c) c) m))"

section \<open>Validation-size parsing\<close>

lemmas float_decimal_eval =
  float_decimal_def strip_def is_space_def lower_def to_lower_def decimal_value_def digit_of_def

lemmas from_str_eval =
  from_str_def isnan_def f_le_def f_lt_def f_gt_def f_eq_def is_integer_def py_round_def
  round_half_even_def

lemma CVSplit_call_float:
  "CVSplit_call (PyFloat cv) = Inl (ValueError (NotAValid (PyFloat cv) ''CVSplit''))"
  by (simp add: CVSplit_call_def CVSplit_members_def)

lemma round_half_even_of_int: "round_half_even (of_int k) = k"
  by (simp add: round_half_even_def)

text \<open>
  No whole number reaches a fold member: the lookup \<open>CVSplit(cv)\<close> is made with the float,
  and the members are keyed by the strings \<open>3-fold\<close>, \<open>5-fold\<close>, \<open>10-fold\<close>, \<open>20-fold\<close>.
\<close>

lemma from_str_integer_never_kfold:
  assumes "to_float s = Some (Fin (of_int k))" and "2 \<le> k"
  shows "snd (from_str to_float s) = Inl (ValueError (NotAValid (PyFloat (Fin (of_int k))) ''CVSplit''))"
  using assms by (simp add: from_str_eval round_half_even_of_int CVSplit_call_float Let_def)

text \<open>
  C1. The claim: a string that parses to a whole number \<open>k \<ge> 2\<close> gives the k-fold policy,
  with a warning and still a result above 10. The code at the strings \<open>5\<close> and \<open>11\<close>:
  both calls end in the \<open>ValueError\<close> of the enumeration lookup, the second after its
  warning, and neither returns a member.
\<close>

theorem from_str_whole_number_raises:
  "from_str float_decimal ''5'' =
     ([], Inl (ValueError (NotAValid (PyFloat (Fin 5)) ''CVSplit''))) \<and>
   from_str float_decimal ''11'' =
     ([UserWarning ''`--htune-val-size` greater than 10 is not recommended.''],
      Inl (ValueError (NotAValid (PyFloat (Fin 11)) ''CVSplit'')))"
  by (simp add: float_decimal_eval from_str_eval CVSplit_call_float)

text \<open>
  C2, as stated: a value strictly between 0 and 1 gives the holdout policy with the value
  kept as its fraction. The strings \<open>0.25\<close> and \<open>0.5\<close> parse to different fractions and
  give the same result, the bare member \<open>Holdout\<close>: the result does not hold the fraction.
\<close>

theorem from_str_holdout_drops_fraction:
  "float_decimal ''0.25'' = Some (Fin (1 / 4)) \<and>
   float_decimal ''0.5'' = Some (Fin (1 / 2)) \<and>
   from_str float_decimal ''0.25'' = ([], Inr Holdout) \<and>
   from_str float_decimal ''0.5'' = ([], Inr Holdout)"
  by (simp add: float_decimal_eval from_str_eval)

text \<open>
  C2, amended: \<open>from_str\<close> raises a \<open>ValueError\<close> with a message for a string that does not
  parse, and for a parsed value that is NaN, at most 0 (minus infinity included), exactly 1,
  or above 1 and not a whole number (plus infinity included); for a parsed value strictly
  between 0 and 1 it returns the member \<open>Holdout\<close>, and no warning is emitted in any of
  these cases.
\<close>

theorem from_str_rejects_or_holdout:
  "(to_float s = None \<longrightarrow> (\<exists>m. from_str to_float s = ([], Inl (ValueError (Text m))))) \<and>
   (to_float s = Some NaN \<longrightarrow> (\<exists>m. from_str to_float s = ([], Inl (ValueError (Text m))))) \<and>
   (to_float s = Some NInf \<longrightarrow> (\<exists>m. from_str to_float s = ([], Inl (ValueError (Text m))))) \<and>
   (to_float s = Some (Fin x) \<and> x \<le> 0 \<longrightarrow>
      (\<exists>m. from_str to_float s = ([], Inl (ValueError (Text m))))) \<and>
   (to_float s = Some (Fin 1) \<longrightarrow> (\<exists>m. from_str to_float s = ([], Inl (ValueError (Text m))))) \<and>
   (to_float s = Some (Fin x) \<and> 1 < x \<and> x \<notin> \<int> \<longrightarrow>
      (\<exists>m. from_str to_float s = ([], Inl (ValueError (Text m))))) \<and>
   (to_float s = Some PInf \<longrightarrow> (\<exists>m. from_str to_float s = ([], Inl (ValueError (Text m))))) \<and>
   (to_float s = Some (Fin x) \<and> 0 < x \<and> x < 1 \<longrightarrow> from_str to_float s = ([], Inr Holdout))"
proof -
  have not_int: "of_int \<lfloor>x\<rfloor> \<noteq> x" if "x \<notin> \<int>"
    using that by (metis Ints_of_int)
  show ?thesis
    by (auto simp add: from_str_eval dest: not_int)
qed

theorem from_str_rejects_or_holdout_witness:
  "(\<exists>m. from_str float_decimal ''abc'' = ([], Inl (ValueError (Text m)))) \<and>
   (\<exists>m. from_str float_decimal ''nan'' = ([], Inl (ValueError (Text m)))) \<and>
   (\<exists>m. from_str float_decimal ''-inf'' = ([], Inl (ValueError (Text m)))) \<and>
   (\<exists>m. from_str float_decimal ''0'' = ([], Inl (ValueError (Text m)))) \<and>
   (\<exists>m. from_str float_decimal ''1'' = ([], Inl (ValueError (Text m)))) \<and>
   (\<exists>m. from_str float_decimal ''2.5'' = ([], Inl (ValueError (Text m)))) \<and>
   (\<exists>m. from_str float_decimal ''inf'' = ([], Inl (ValueError (Text m)))) \<and>
   from_str float_decimal ''0.25'' = ([], Inr Holdout)"
proof -
  have p: "float_decimal ''abc'' = None" "float_decimal ''nan'' = Some NaN"
    "float_decimal ''-inf'' = Some NInf" "float_decimal ''0'' = Some (Fin 0)"
    "float_decimal ''1'' = Some (Fin 1)" "float_decimal ''2.5'' = Some (Fin (5 / 2))"
    "float_decimal ''inf'' = Some PInf" "float_decimal ''0.25'' = Some (Fin (1 / 4))"
    by (simp_all add: float_decimal_eval)
  have frac: "(5 / 2 :: real) \<notin> \<int>"
  proof
    assume "(5 / 2 :: real) \<in> \<int>"
    then obtain k :: int where "(5 / 2 :: real) = of_int k" by (auto elim: Ints_cases)
    then have "of_int (2 * k) = (of_int 5 :: real)" by simp
    then have "2 * k = 5" by (simp only: of_int_eq_iff)
    then show False by presburger
  qed
  show ?thesis
    using from_str_rejects_or_holdout [of float_decimal "''abc''" 0]
      from_str_rejects_or_holdout [of float_decimal "''nan''" 0]
      from_str_rejects_or_holdout [of float_decimal "''-inf''" 0]
      from_str_rejects_or_holdout [of float_decimal "''0''" 0]
      from_str_rejects_or_holdout [of float_decimal "''1''" 0]
      from_str_rejects_or_holdout [of float_decimal "''2.5''" "5 / 2"]
      from_str_rejects_or_holdout [of float_decimal "''inf''" 0]
      from_str_rejects_or_holdout [of float_decimal "''0.25''" "1 / 4"]
      p frac
    by simp
qed

section \<open>Effect sizes\<close>

lemmas frame_eval =
  drop_columns_def getitem_def select_rows_def loc_rows_def loc_columns_def per_column_def
  series_map_def series_map2_def

lemma f_add_commute: "f_add a b = f_add b a"
  by (cases a; cases b) (simp_all add: add.commute)

lemma f_abs_sub_commute: "f_abs (f_sub a b) = f_abs (f_sub b a)"
  by (cases a; cases b) (simp_all add: f_sub_def abs_minus_commute)

lemma pooled_commute: "pooled n1 n2 g1 g2 = pooled n2 n1 g2 g1"
  unfolding pooled_def
  by (simp add: f_abs_sub_commute [of "np_mean g1"]
      f_add_commute [of "f_mul (Fin (of_int n1)) (np_std g1)"] add.commute)

lemma length_select_rows:
  "length keep = length xs \<Longrightarrow> length (select_rows keep xs) = length (filter id keep)"
  unfolding select_rows_def
  by (induction keep xs rule: list_induct2) simp_all

lemma cohens_d_columns:
  assumes "drop_columns ''target'' df = Inr X" and "getitem df ''target'' = Inr y"
  shows "cohens_d df =
     Inr (map (\<lambda>c. (fst c,
            pooled (int (length (filter id (map (\<lambda>v. v = 0) y))) - 1)
                   (int (length (filter id (map (\<lambda>v. v = 1) y))) - 1)
                   (select_rows (map (\<lambda>v. v = 0) y) (snd c))
                   (select_rows (map (\<lambda>v. v = 1) y) (snd c)))) (cols X))"
  using assms
  by (simp add: cohens_d_def Let_def loc_rows_def per_column_def series_map_def series_map2_def
      pooled_def zip_map_map zip_same_conv_map comp_def)

lemma getitem_in_cols: "getitem df l = Inr y \<Longrightarrow> (l, y) \<in> set (cols df)"
  by (auto simp: getitem_def split: option.splits dest: map_of_SomeD)

lemma drop_columns_of_getitem:
  "getitem df l = Inr y \<Longrightarrow> drop_columns l df = Inr (df\<lparr>cols := filter (\<lambda>c. fst c \<noteq> l) (cols df)\<rparr>)"
  by (auto simp: drop_columns_def dest!: getitem_in_cols intro: rev_image_eqI)

lemma drop_columns_error: "getitem df l = Inl e \<Longrightarrow> drop_columns l df = Inl (KeyError l)"
  by (auto simp: getitem_def drop_columns_def map_of_eq_None_iff split: option.splits)

lemma pooled_formula:
  assumes "length g1 = a" "length g0 = b"
  shows "pooled (int b - 1) (int a - 1) g0 g1 = cohens_d_formula g1 g0"
proof -
  have "int b - 1 + (int a - 1) = int a + int b - 2"
    by simp
  then show ?thesis
    unfolding pooled_def cohens_d_formula_def Let_def assms
    by (simp only: f_abs_sub_commute [of "np_mean g0"]
        f_add_commute [of "f_mul (Fin (of_int (int b - 1))) (np_std g0)"])
qed

text \<open>
  C6. For a table whose target column is \<open>y\<close> and whose columns all have one value per row,
  \<open>cohens_d\<close> returns, for each feature in column order, the formula of the specification
  applied to the feature's values in the rows with \<open>y = 1\<close> and in the rows with \<open>y = 0\<close>.
  This covers every binary target with two non-empty groups; where a group has fewer than
  two rows both sides are the same NaN.
\<close>

theorem cohens_d_is_formula:
  assumes "getitem df ''target'' = Inr y"
      and "list_all (\<lambda>c. length (snd c) = length y) (cols df)"
  shows "cohens_d df =
     Inr (map (\<lambda>c. (fst c, cohens_d_formula (select_rows (map (\<lambda>v. v = 1) y) (snd c))
                                             (select_rows (map (\<lambda>v. v = 0) y) (snd c))))
            (filter (\<lambda>c. fst c \<noteq> ''target'') (cols df)))"
proof -
  have len: "length (select_rows (map P y) (snd c)) = length (filter id (map P y))"
    if "c \<in> set (cols df)" for c and P :: "real \<Rightarrow> bool"
    using that assms(2) by (intro length_select_rows) (simp add: list_all_iff)
  have "pooled (int (length (filter id (map (\<lambda>v. v = 0) y))) - 1)
               (int (length (filter id (map (\<lambda>v. v = 1) y))) - 1)
               (select_rows (map (\<lambda>v. v = 0) y) (snd c))
               (select_rows (map (\<lambda>v. v = 1) y) (snd c))
        = cohens_d_formula (select_rows (map (\<lambda>v. v = 1) y) (snd c))
                           (select_rows (map (\<lambda>v. v = 0) y) (snd c))"
    if "c \<in> set (cols df)" for c
    using len [OF that] by (intro pooled_formula) simp_all
  then show ?thesis
    using cohens_d_columns [OF drop_columns_of_getitem [OF assms(1)] assms(1)]
    by simp
qed

theorem cohens_d_is_formula_witness:
  "cohens_d \<lparr>nrows = 6, cols = [(''a'', [0, 1, 2, 2, 3, 4]), (''target'', [0, 0, 0, 1, 1, 1])]\<rparr>
     = Inr [(''a'', cohens_d_formula [2, 3, 4] [0, 1, 2])] \<and>
   cohens_d_formula [2, 3, 4] [0, 1, 2] = Fin 2"
proof -
  have "cohens_d_formula [2, 3, 4] [0, 1, 2] = Fin 2"
    by (simp add: cohens_d_formula_def np_std_def np_mean_def mean_def f_sub_def power2_eq_square)
  then show ?thesis
    using cohens_d_is_formula
      [of "\<lparr>nrows = 6, cols = [(''a'', [0, 1, 2, 2, 3, 4]), (''target'', [0, 0, 0, 1, 1, 1])]\<rparr>"
          "[0, 0, 0, 1, 1, 1]"]
    by (simp add: getitem_def select_rows_def)
qed

lemma map_of_swap:
  "map_of (map (\<lambda>c. if fst c = l then (fst c, f (snd c)) else c) cs) l = map_option f (map_of cs l)"
  by (induction cs) auto

lemma getitem_swap_labels:
  "getitem (swap_labels df) ''target'' =
     (case getitem df ''target'' of Inl e \<Rightarrow> Inl e | Inr y \<Rightarrow> Inr (map (\<lambda>v. 1 - v) y))"
  by (simp add: getitem_def swap_labels_def map_of_swap split: option.splits)

lemma drop_columns_swap_labels:
  "drop_columns ''target'' (swap_labels df) = drop_columns ''target'' df"
proof -
  have "filter (\<lambda>c. fst c \<noteq> l) (map (\<lambda>c. if fst c = l then (fst c, f (snd c)) else c) cs)
        = filter (\<lambda>c. fst c \<noteq> l) cs" for l :: string and f :: "real list \<Rightarrow> real list" and cs
    by (induction cs) auto
  moreover have "fst ` set (map (\<lambda>c. if fst c = l then (fst c, f (snd c)) else c) cs) = fst ` set cs"
    for l :: string and f :: "real list \<Rightarrow> real list" and cs
    by (induction cs) auto
  ultimately show ?thesis
    by (simp add: drop_columns_def swap_labels_def del: set_map)
qed

text \<open>
  C7. Replacing the target \<open>y\<close> by \<open>1 - y\<close> leaves the result of \<open>cohens_d\<close> unchanged, for
  every table: the two groups change places, and both the absolute mean difference and the
  pooled sum are symmetric in them.
\<close>

theorem cohens_d_swap_labels: "cohens_d (swap_labels df) = cohens_d df"
proof (cases "getitem df ''target''")
  case (Inl e)
  then show ?thesis
    by (simp add: cohens_d_def drop_columns_swap_labels drop_columns_error)
next
  case (Inr y)
  have swapped: "getitem (swap_labels df) ''target'' = Inr (map (\<lambda>v. 1 - v) y)"
    by (simp add: getitem_swap_labels Inr)
  have dropped: "drop_columns ''target'' (swap_labels df)
      = Inr (df\<lparr>cols := filter (\<lambda>c. fst c \<noteq> ''target'') (cols df)\<rparr>)"
    by (simp add: drop_columns_swap_labels drop_columns_of_getitem [OF Inr])
  have m0: "map (\<lambda>v. v = 0) (map (\<lambda>v. 1 - v) y) = map (\<lambda>v. v = 1) y"
    by auto
  have m1: "map (\<lambda>v. v = 1) (map (\<lambda>v. 1 - v) y) = map (\<lambda>v. v = 0) y"
    by auto
  show ?thesis
    unfolding cohens_d_columns [OF dropped swapped]
      cohens_d_columns [OF drop_columns_of_getitem [OF Inr] Inr] m0 m1
    by (simp add: pooled_commute [of "int (length (filter (\<lambda>v. v = 1) y)) - 1"])
qed

section \<open>Univariate selection\<close>

lemma auroc_example:
  "auroc \<lparr>nrows = 4, cols = [(''a'', [1, 5, 3, 4]), (''b'', [1, 2, 3, 4]), (''target'', [0, 0, 1, 1])]\<rparr>
     = Inr [(''a'', Fin 0), (''b'', Fin (1 / 2))]"
  by (simp add: frame_eval auroc_def roc_auc_score_def mann_whitney_u_def f_sub_def)

text \<open>
  C3. The claim: the result holds the \<open>N\<close> best features and the target column, so \<open>N = 0\<close>
  gives a table with the target alone. The code on a table with the features \<open>a\<close>, \<open>b\<close> and
  the target, metric \<open>auc\<close>: for \<open>N = 1\<close> the result is the column \<open>b\<close> alone, for \<open>N = 0\<close> it
  has no column at all. The target is never put back.
\<close>

theorem select_features_drops_target:
  "select_features_by_univariate_rank corrwith
     \<lparr>nrows = 4, cols = [(''a'', [1, 5, 3, 4]), (''b'', [1, 2, 3, 4]), (''target'', [0, 0, 1, 1])]\<rparr>
     ''auc'' 1
   = Inr \<lparr>nrows = 4, cols = [(''b'', [1, 2, 3, 4])]\<rparr> \<and>
   select_features_by_univariate_rank corrwith
     \<lparr>nrows = 4, cols = [(''a'', [1, 5, 3, 4]), (''b'', [1, 2, 3, 4]), (''target'', [0, 0, 1, 1])]\<rparr>
     ''auc'' 0
   = Inr \<lparr>nrows = 4, cols = []\<rparr>"
  by (simp add: select_features_by_univariate_rank_def sort_values_desc_def slice_to_def lower_def
      to_lower_def isnan_def auroc_example loc_columns_def)

section \<open>Weak-feature filter\<close>

text \<open>
  C4. The claim: with no cache file and \<open>decorrelate\<close> true, the three filters run in order,
  the result is written to the cache and returned. The code, for every table and every
  choice of the library functions: the filters run in that order and the result is written,
  but the call returns Python's \<open>None\<close>; the function body ends after the last \<open>print\<close>.
\<close>

theorem remove_weak_features_returns_none:
  "remove_weak_features lib df True None =
     (Inr None,
      Some (to_json lib (remove_highly_correlated_features lib
        (remove_low_information_features lib (remove_single_value_features lib df)))),
      [Shape ''Starting shape: '' (shape df),
       Shape ''Shape after removing constant features: '' (shape (remove_single_value_features lib df)),
       Shape ''Shape after removing low-information features: ''
         (shape (remove_low_information_features lib (remove_single_value_features lib df))),
       Message (''Removing highly-correlated features.'' @
                ''NOTE: this could take a while when there are 1000+ features.''),
       Shape ''Shape after removing highly-correlated features: ''
         (shape (remove_highly_correlated_features lib
           (remove_low_information_features lib (remove_single_value_features lib df)))),
       Message (''Saved uncorrelated features to '' @ UNCORRELATED lib)])"
  by (simp add: remove_weak_features_def Let_def)

text \<open>
  C5. When the cache file exists and deserialises to \<open>cached\<close>, the call returns \<open>cached\<close>,
  leaves the file as it was and prints nothing, whatever the input table, the flag and the
  three filters are: none of them appears in the result.
\<close>

theorem remove_weak_features_cached:
  assumes "read_json lib content = Inr cached"
  shows "remove_weak_features lib df decorrelate (Some content) = (Inr (Some cached), Some content, [])"
  using assms by (simp add: remove_weak_features_def)

theorem remove_weak_features_cached_witness:
  "remove_weak_features
     \<lparr>remove_single_value_features = (\<lambda>d. d\<lparr>cols := filter (\<lambda>c. 1 < length (remdups (snd c))) (cols d)\<rparr>),
      remove_low_information_features = (\<lambda>d. d),
      remove_highly_correlated_features = (\<lambda>d. d),
      to_json = (\<lambda>d. d), read_json = Inr, UNCORRELATED = ''uncorrelated.json''\<rparr>
     \<lparr>nrows = 2, cols = [(''a'', [1, 2]), (''k'', [3, 3]), (''target'', [0, 1])]\<rparr> True
     (Some \<lparr>nrows = 1, cols = [(''b'', [7])]\<rparr>)
   = (Inr (Some \<lparr>nrows = 1, cols = [(''b'', [7])]\<rparr>), Some \<lparr>nrows = 1, cols = [(''b'', [7])]\<rparr>, [])"
  using remove_weak_features_cached
    [of "\<lparr>remove_single_value_features = (\<lambda>d. d\<lparr>cols := filter (\<lambda>c. 1 < length (remdups (snd c))) (cols d)\<rparr>),
          remove_low_information_features = (\<lambda>d. d),
          remove_highly_correlated_features = (\<lambda>d. d),
          to_json = (\<lambda>d. d), read_json = Inr, UNCORRELATED = ''uncorrelated.json''\<rparr>"
        "\<lparr>nrows = 1, cols = [(''b'', [7])]\<rparr>" "\<lparr>nrows = 1, cols = [(''b'', [7])]\<rparr>"
        "\<lparr>nrows = 2, cols = [(''a'', [1, 2]), (''k'', [3, 3]), (''target'', [0, 1])]\<rparr>" True]
  by simp

text \<open>
  C10. With no cache file and \<open>decorrelate\<close> false, the call returns the table after the
  constant-feature and the low-information filter and the cache file is still absent; and
  with \<open>decorrelate\<close> false the file is never changed, whatever it was.
\<close>

theorem remove_weak_features_no_decorrelate:
  "remove_weak_features lib df False None =
     (Inr (Some (remove_low_information_features lib (remove_single_value_features lib df))),
      None,
      [Shape ''Starting shape: '' (shape df),
       Shape ''Shape after removing constant features: '' (shape (remove_single_value_features lib df)),
       Shape ''Shape after removing low-information features: ''
         (shape (remove_low_information_features lib (remove_single_value_features lib df)))]) \<and>
   fst (snd (remove_weak_features lib df False file)) = file"
  by (cases "file") (simp_all add: remove_weak_features_def Let_def split: sum.splits)

section \<open>Rescaled AUROC\<close>

lemma sum_list_unit_bounds:
  assumes "\<And>x. 0 \<le> f x \<and> f x \<le> (1::real)"
  shows "0 \<le> sum_list (map f xs) \<and> sum_list (map f xs) \<le> real (length xs)"
proof (induction xs)
  case Nil
  then show ?case by simp
next
  case (Cons x xs)
  then show ?case using assms [of x] by simp
qed

lemma mann_whitney_u_bounds:
  "0 \<le> mann_whitney_u pos neg \<and> mann_whitney_u pos neg \<le> real (length pos) * real (length neg)"
proof (induction pos)
  case Nil
  then show ?case by (simp add: mann_whitney_u_def)
next
  case (Cons p pos)
  have "0 \<le> (\<Sum>n\<leftarrow>neg. if n < p then 1 else if n = p then 1 / 2 else (0::real)) \<and>
        (\<Sum>n\<leftarrow>neg. if n < p then 1 else if n = p then 1 / 2 else (0::real)) \<le> real (length neg)"
    by (rule sum_list_unit_bounds) simp
  with Cons show ?case
    by (simp add: mann_whitney_u_def algebra_simps)
qed

lemma auc_range: "0 \<le> auc y score \<and> auc y score \<le> 1"
proof -
  define pos where "pos = select_rows (map (\<lambda>v. v = 1) y) score"
  define neg where "neg = select_rows (map (\<lambda>v. v = 0) y) score"
  have b: "0 \<le> mann_whitney_u pos neg" "mann_whitney_u pos neg \<le> real (length pos) * real (length neg)"
    using mann_whitney_u_bounds [of pos neg] by simp_all
  have "0 \<le> mann_whitney_u pos neg / (real (length pos) * real (length neg))"
    using b(1) by simp
  moreover have "mann_whitney_u pos neg / (real (length pos) * real (length neg)) \<le> 1"
  proof (cases "real (length pos) * real (length neg) = 0")
    case True
    then have z: "mann_whitney_u pos neg / (real (length pos) * real (length neg)) = 0"
      by (simp only: div_by_0)
    show ?thesis unfolding z by simp
  next
    case False
    then have "0 < real (length pos) * real (length neg)" by simp
    then show ?thesis using b(2) by (simp add: divide_le_eq)
  qed
  ultimately show ?thesis
    by (simp add: auc_def pos_def neg_def Let_def)
qed

lemma labels_binary:
  assumes "set y = {0, 1::real}"
  shows "sort (remdups y) = [0, 1]"
proof -
  have "sort (remdups y) = sorted_list_of_set (set y)"
    by (simp add: sorted_list_of_set_sort_remdups)
  then show ?thesis by (simp add: assms)
qed

lemma roc_auc_score_binary:
  assumes "set y = {0, 1}"
  shows "roc_auc_score y score = Inr (auc y score)"
proof -
  have "list_all (\<lambda>v. of_int \<lfloor>v\<rfloor> = v) y"
    using assms by (auto simp: list_all_iff)
  then show ?thesis
    by (simp add: roc_auc_score_def labels_binary [OF assms] auc_def Let_def)
qed

lemma aucs_of_binary:
  assumes "set y = {0, 1}"
  shows "aucs_of y cs = Inr (map (\<lambda>c. (fst c, Fin (auc y (snd c)))) cs)"
  by (induction cs) (simp_all add: roc_auc_score_binary [OF assms])

text \<open>
  C8. For a table whose target column holds the two values 0 and 1, \<open>auroc\<close> returns for
  each feature, in column order, \<open>|AUC - 0.5|\<close> with AUC the area under the ROC curve of that
  feature, and every such score lies between 0 and 0.5.
\<close>

theorem auroc_rescaled:
  assumes "getitem df ''target'' = Inr y" and "set y = {0, 1}"
  shows "auroc df =
           Inr (map (\<lambda>c. (fst c, Fin \<bar>auc y (snd c) - 1 / 2\<bar>))
                  (filter (\<lambda>c. fst c \<noteq> ''target'') (cols df))) \<and>
         list_all (\<lambda>c. 0 \<le> \<bar>auc y (snd c) - 1 / 2\<bar> \<and> \<bar>auc y (snd c) - 1 / 2\<bar> \<le> 1 / 2)
           (filter (\<lambda>c. fst c \<noteq> ''target'') (cols df))"
proof -
  have "\<bar>auc y s - 1 / 2\<bar> \<le> 1 / 2" for s
    using auc_range [of y s] by linarith
  then show ?thesis
    by (simp add: auroc_def drop_columns_of_getitem [OF assms(1)] assms(1)
        aucs_of_binary [OF assms(2)] series_map_def f_sub_def comp_def list_all_iff)
qed

theorem auroc_rescaled_witness:
  "auroc \<lparr>nrows = 4, cols = [(''a'', [1, 5, 3, 4]), (''b'', [1, 2, 3, 4]), (''target'', [0, 0, 1, 1])]\<rparr>
     = Inr [(''a'', Fin \<bar>auc [0, 0, 1, 1] [1, 5, 3, 4] - 1 / 2\<bar>),
            (''b'', Fin \<bar>auc [0, 0, 1, 1] [1, 2, 3, 4] - 1 / 2\<bar>)] \<and>
   auc [0, 0, 1, 1] [1, 5, 3, 4] = 1 / 2 \<and> auc [0, 0, 1, 1] [1, 2, 3, 4] = 1"
proof -
  have s: "set [0, 0, 1, 1 :: real] = {0, 1}" by auto
  have g: "getitem \<lparr>nrows = 4, cols = [(''a'', [1, 5, 3, 4]), (''b'', [1, 2, 3, 4]), (''target'', [0, 0, 1, 1])]\<rparr> ''target'' = Inr [0, 0, 1, 1]"
    by (simp add: getitem_def)
  have "auc [0, 0, 1, 1] [1, 5, 3, 4] = 1 / 2" "auc [0, 0, 1, 1] [1, 2, 3, 4] = 1"
    by (simp_all add: auc_def select_rows_def mann_whitney_u_def)
  then show ?thesis
    using auroc_rescaled [OF g s] by simp
qed

section \<open>Projections\<close>

lemma component_frame_inject:
  assumes "component_frame p r m = component_frame p' r' m'"
  shows "m = m'"
proof -
  have "map snd (cols (component_frame p r m)) = m" for p r and m :: "real list list"
    by (simp add: component_frame_def)
  then show ?thesis
    by (metis assms)
qed

lemma drop_columns_with_target:
  "drop_columns ''target'' (with_target y' df) = drop_columns ''target'' df"
proof -
  have "filter (\<lambda>c. fst c \<noteq> l) (map (\<lambda>c. if fst c = l then (fst c, v) else c) cs)
        = filter (\<lambda>c. fst c \<noteq> l) cs" for l :: string and v :: "real list" and cs
    by (induction cs) auto
  moreover have "fst ` set (map (\<lambda>c. if fst c = l then (fst c, v) else c) cs) = fst ` set cs"
    for l :: string and v :: "real list" and cs
    by (induction cs) auto
  ultimately show ?thesis
    by (simp add: drop_columns_def with_target_def del: set_map)
qed

lemma to_numpy_with_target:
  assumes "getitem df ''target'' = Inr y" and "y' \<noteq> y"
  shows "to_numpy (with_target y' df) \<noteq> to_numpy df"
proof
  assume eq: "to_numpy (with_target y' df) = to_numpy df"
  have "(''target'', y) \<in> set (cols df)"
    using assms(1) by (rule getitem_in_cols)
  then obtain i where i: "i < length (cols df)" "cols df ! i = (''target'', y)"
    by (auto simp: in_set_conv_nth)
  have "to_numpy (with_target y' df) ! i = y'"
    using i by (simp add: to_numpy_def with_target_def)
  moreover have "to_numpy df ! i = y"
    using i by (simp add: to_numpy_def)
  ultimately show False
    using eq assms(2) by simp
qed

lemma nrows_with_target: "nrows (with_target y' df) = nrows df"
  by (simp add: with_target_def)

lemma component_frame_eq_iff:
  "component_frame p r m = component_frame p r m' \<longleftrightarrow> m = m'"
  using component_frame_inject by blast

lemma get_pca_features_rows:
  assumes "nrows d = nrows d'"
  shows "get_pca_features pca d n = get_pca_features pca d' n \<longleftrightarrow>
           pca n (map snd (cols d)) = pca n (map snd (cols d'))"
  using assms
  by (auto simp: get_pca_features_def to_numpy_def component_frame_eq_iff split: sum.splits)

lemma get_kernel_pca_features_rows:
  assumes "nrows d = nrows d'"
  shows "get_kernel_pca_features kpca d n = get_kernel_pca_features kpca d' n \<longleftrightarrow>
           kpca n (map snd (cols d)) = kpca n (map snd (cols d'))"
  using assms
  by (auto simp: get_kernel_pca_features_def to_numpy_def component_frame_eq_iff split: sum.splits)

text \<open>
  C9. Each of the two functions returns exactly the components that \<open>fit_transform\<close> gives
  for the array of all columns of the table, labelled \<open>pca-i\<close> or \<open>kpca-i\<close>, or the
  exception it raises; when the table has a target column \<open>y\<close>, that column is one of the
  columns of that array. For a table that differs only in its target values (the table
  without its target column is the same) the array is different, and the two results are
  equal exactly when the projection gives the same on the two arrays: the results differ
  as soon as the projection tells the two target columns apart, and there is a projection
  for which they do.
\<close>

theorem projections_use_target:
  assumes "getitem df ''target'' = Inr y" and "y' \<noteq> y"
  shows "get_pca_features pca df n =
           (case pca n (map snd (cols df)) of
              Inl e \<Rightarrow> Inl e
            | Inr reduced \<Rightarrow>
                Inr \<lparr>nrows = nrows df,
                     cols = zip (map (\<lambda>i. ''pca-'' @ str_nat i) [0..<length reduced]) reduced\<rparr>) \<and>
         get_kernel_pca_features kpca df n =
           (case kpca n (map snd (cols df)) of
              Inl e \<Rightarrow> Inl e
            | Inr reduced \<Rightarrow>
                Inr \<lparr>nrows = nrows df,
                     cols = zip (map (\<lambda>i. ''kpca-'' @ str_nat i) [0..<length reduced]) reduced\<rparr>) \<and>
         y \<in> set (map snd (cols df)) \<and>
         drop_columns ''target'' (with_target y' df) = drop_columns ''target'' df \<and>
         map snd (cols (with_target y' df)) \<noteq> map snd (cols df) \<and>
         (get_pca_features pca (with_target y' df) n = get_pca_features pca df n \<longleftrightarrow>
            pca n (map snd (cols (with_target y' df))) = pca n (map snd (cols df))) \<and>
         (get_kernel_pca_features kpca (with_target y' df) n = get_kernel_pca_features kpca df n \<longleftrightarrow>
            kpca n (map snd (cols (with_target y' df))) = kpca n (map snd (cols df))) \<and>
         (\<exists>p. get_pca_features p (with_target y' df) n \<noteq> get_pca_features p df n) \<and>
         (\<exists>p. get_kernel_pca_features p (with_target y' df) n \<noteq> get_kernel_pca_features p df n)"
proof -
  have eq1: "get_pca_features pca df n =
           (case pca n (map snd (cols df)) of
              Inl e \<Rightarrow> Inl e
            | Inr reduced \<Rightarrow>
                Inr \<lparr>nrows = nrows df,
                     cols = zip (map (\<lambda>i. ''pca-'' @ str_nat i) [0..<length reduced]) reduced\<rparr>)"
    by (simp add: get_pca_features_def to_numpy_def component_frame_def split: sum.splits)
  have eq2: "get_kernel_pca_features kpca df n =
           (case kpca n (map snd (cols df)) of
              Inl e \<Rightarrow> Inl e
            | Inr reduced \<Rightarrow>
                Inr \<lparr>nrows = nrows df,
                     cols = zip (map (\<lambda>i. ''kpca-'' @ str_nat i) [0..<length reduced]) reduced\<rparr>)"
    by (simp add: get_kernel_pca_features_def to_numpy_def component_frame_def split: sum.splits)
  have mem: "y \<in> set (map snd (cols df))"
    using getitem_in_cols [OF assms(1)] by force
  have arr: "map snd (cols (with_target y' df)) \<noteq> map snd (cols df)"
    using to_numpy_with_target [OF assms] by (simp add: to_numpy_def)
  have iff1: "get_pca_features p (with_target y' df) n = get_pca_features p df n \<longleftrightarrow>
      p n (map snd (cols (with_target y' df))) = p n (map snd (cols df))" for p
    by (rule get_pca_features_rows) (rule nrows_with_target)
  have iff2: "get_kernel_pca_features p (with_target y' df) n = get_kernel_pca_features p df n \<longleftrightarrow>
      p n (map snd (cols (with_target y' df))) = p n (map snd (cols df))" for p
    by (rule get_kernel_pca_features_rows) (rule nrows_with_target)
  have ex1: "\<exists>p. get_pca_features p (with_target y' df) n \<noteq> get_pca_features p df n"
  proof
    show "get_pca_features (\<lambda>k m. Inr m) (with_target y' df) n \<noteq> get_pca_features (\<lambda>k m. Inr m) df n"
      using arr by (simp add: iff1)
  qed
  have ex2: "\<exists>p. get_kernel_pca_features p (with_target y' df) n \<noteq> get_kernel_pca_features p df n"
  proof
    show "get_kernel_pca_features (\<lambda>k m. Inr m) (with_target y' df) n
        \<noteq> get_kernel_pca_features (\<lambda>k m. Inr m) df n"
      using arr by (simp add: iff2)
  qed
  show ?thesis
    using eq1 eq2 mem drop_columns_with_target [of y' df] arr iff1 [of pca] iff2 [of kpca] ex1 ex2
    by (intro conjI)
qed

theorem projections_use_target_witness:
  "get_pca_features centre_columns \<lparr>nrows = 3, cols = [(''target'', [0, 0, 1]), (''a'', [1, 2, 3])]\<rparr> 1
     = Inr \<lparr>nrows = 3, cols = [(''pca-0'', [- 1 / 3, - 1 / 3, 2 / 3])]\<rparr> \<and>
   get_pca_features centre_columns
       (with_target [0, 1, 1] \<lparr>nrows = 3, cols = [(''target'', [0, 0, 1]), (''a'', [1, 2, 3])]\<rparr>) 1
     = Inr \<lparr>nrows = 3, cols = [(''pca-0'', [- 2 / 3, 1 / 3, 1 / 3])]\<rparr> \<and>
   get_kernel_pca_features centre_columns \<lparr>nrows = 3, cols = [(''target'', [0, 0, 1]), (''a'', [1, 2, 3])]\<rparr> 1
     = Inr \<lparr>nrows = 3, cols = [(''kpca-0'', [- 1 / 3, - 1 / 3, 2 / 3])]\<rparr> \<and>
   get_kernel_pca_features centre_columns
       (with_target [0, 1, 1] \<lparr>nrows = 3, cols = [(''target'', [0, 0, 1]), (''a'', [1, 2, 3])]\<rparr>) 1
     = Inr \<lparr>nrows = 3, cols = [(''kpca-0'', [- 2 / 3, 1 / 3, 1 / 3])]\<rparr> \<and>
   drop_columns ''target''
       (with_target [0, 1, 1] \<lparr>nrows = 3, cols = [(''target'', [0, 0, 1]), (''a'', [1, 2, 3])]\<rparr>)
     = Inr \<lparr>nrows = 3, cols = [(''a'', [1, 2, 3])]\<rparr> \<and>
   get_pca_features centre_columns
       (with_target [0, 1, 1] \<lparr>nrows = 3, cols = [(''target'', [0, 0, 1]), (''a'', [1, 2, 3])]\<rparr>) 1
     \<noteq> get_pca_features centre_columns
         \<lparr>nrows = 3, cols = [(''target'', [0, 0, 1]), (''a'', [1, 2, 3])]\<rparr> 1 \<and>
   get_kernel_pca_features centre_columns
       (with_target [0, 1, 1] \<lparr>nrows = 3, cols = [(''target'', [0, 0, 1]), (''a'', [1, 2, 3])]\<rparr>) 1
     \<noteq> get_kernel_pca_features centre_columns
         \<lparr>nrows = 3, cols = [(''target'', [0, 0, 1]), (''a'', [1, 2, 3])]\<rparr> 1"
proof -
  have g: "getitem \<lparr>nrows = 3, cols = [(''target'', [0, 0, 1]), (''a'', [1, 2, 3])]\<rparr> ''target'' = Inr [0, 0, 1]"
    by (simp add: getitem_def)
  have ne: "[0, 1, 1] \<noteq> [0, 0, 1 :: real]"
    by simp
  have d: "drop_columns ''target'' \<lparr>nrows = 3, cols = [(''target'', [0, 0, 1]), (''a'', [1, 2, 3])]\<rparr>
     = Inr \<lparr>nrows = 3, cols = [(''a'', [1, 2, 3])]\<rparr>"
    by (simp add: drop_columns_def)
  show ?thesis
    using projections_use_target [OF g ne, of centre_columns 1 centre_columns]
      projections_use_target
        [of "with_target [0, 1, 1] \<lparr>nrows = 3, cols = [(''target'', [0, 0, 1]), (''a'', [1, 2, 3])]\<rparr>"
            "[0, 1, 1]" "[0, 0, 1]" centre_columns 1 centre_columns]
      d
    by (simp add: centre_columns_def with_target_def mean_def getitem_def)
qed

end
